theory Spec2Isabelle
  imports Complex_Main "HOL-Library.Sublist"
begin

section \<open>Data model\<close>

text \<open>
  The payloads of the Steam minigame API, typed as \<^verbatim>\<open>src/index.js\<close> reads them.
  A zone carries the four properties the zone callback of \<^verbatim>\<open>setupGame\<close> looks at.
  \<^verbatim>\<open>capture_progress\<close> may be missing from a zone object, hence the option. JSON numbers
  are doubles; every double is a rational and doubles compare as the rationals they denote.
  The literal \<^verbatim>\<open>0.97\<close> is the double nearest to 97/100, which lies below 97/100 while its
  successor lies above, so for a double \<open>x\<close> the test \<^verbatim>\<open>x > 0.97\<close> is \<open>x > 97/100\<close>.
\<close>

record zone =
  zone_type :: int
  difficulty :: int
  capture_progress :: "rat option"
  captured :: bool

text \<open>
  The \<^verbatim>\<open>state\<close> object of a planet, as far as \<^verbatim>\<open>setupGame\<close> reads it: \<^verbatim>\<open>state.name\<close> and
  \<^verbatim>\<open>state.capture_progress\<close>, either of which may be missing (\<^verbatim>\<open>state.current_players\<close> is
  only interpolated into the log line and cannot make the script throw).
\<close>

record planet_state =
  state_name :: "string option"
  state_capture_progress :: "rat option"

text \<open>
  A planet object: its \<^verbatim>\<open>id\<close>, its \<^verbatim>\<open>state\<close> object and its \<^verbatim>\<open>zones\<close> array. Either member
  may be missing (\<open>None\<close>): the script reads \<^verbatim>\<open>state\<close> from the entries of the \<^verbatim>\<open>GetPlanets\<close>
  list and \<^verbatim>\<open>zones\<close> from the object that \<^verbatim>\<open>GetPlanet\<close> returns, and a read through a missing
  member throws a \<^verbatim>\<open>TypeError\<close>.
\<close>

record planet =
  planet_id :: string
  state :: "planet_state option"
  zones :: "zone list option"

text \<open>
  The \<^verbatim>\<open>response\<close> member of a decoded body: an object whose \<^verbatim>\<open>planets\<close> member is an array
  of planet objects or is missing (\<open>None\<close>).
\<close>

datatype api_response = Response (response_planets: "planet list option")

text \<open>
  A decoded JSON body, by what \<^verbatim>\<open>RequestAPI\<close> does with it: \<^verbatim>\<open>null\<close>; another falsy value
  (\<^verbatim>\<open>false\<close>, \<^verbatim>\<open>0\<close>, the empty string); or a truthy value with its \<^verbatim>\<open>response\<close> member
  (\<open>None\<close> when the member is missing).
\<close>

datatype body = JNull | JFalsy | JObject "api_response option"

text \<open>
  What one call \<^verbatim>\<open>fetch(url, options)\<close> followed by \<^verbatim>\<open>request.json()\<close> can do: \<^verbatim>\<open>fetch\<close>
  rejects, \<^verbatim>\<open>json()\<close> rejects, or a body is decoded. \<^verbatim>\<open>fetch\<close> is the \<^verbatim>\<open>fetch-retry\<close> package;
  whatever it does inside one call is part of that call's outcome.
\<close>

datatype fetch_outcome = NetworkError | NonJsonBody | JsonBody body

text \<open>
  The two exceptions that occur: the script's own \<^verbatim>\<open>SalienScriptException\<close> with its message
  (\<open>None\<close> when constructed without argument) and the engine's \<^verbatim>\<open>TypeError\<close> for a property
  read on \<^verbatim>\<open>undefined\<close> or \<^verbatim>\<open>null\<close>, with the message V8 gives it.
\<close>

datatype exn = SalienScriptException "string option" | TypeError string

fun name :: "exn \<Rightarrow> string" where
  "name (SalienScriptException m) = ''SalienScriptException''"
| "name (TypeError m) = ''TypeError''"

fun message :: "exn \<Rightarrow> string option" where
  "message (SalienScriptException m) = m"
| "message (TypeError m) = Some m"

text \<open>
  The observable effects: a request sent to a URL, a \<^verbatim>\<open>delay(ms)\<close>, and the per-planet summary
  line of \<^verbatim>\<open>setupGame\<close> (planet id, then the hard, medium, easy and unknown counts).
\<close>

datatype event = Fetch string | Delay nat | PlanetLine string nat nat nat nat

text \<open>
  The world outside the script: the outcomes the endpoint will give to the coming requests,
  in order, and the effects so far. A request made when \<open>script\<close> is empty has no outcome
  in the model: the run is then undetermined, and the functions below return \<open>None\<close>.
\<close>

record world =
  script :: "fetch_outcome list"
  trace :: "event list"

text \<open>
  The fields of a \<^verbatim>\<open>SalienScript\<close> object that the modelled methods read or write
  (\<^verbatim>\<open>token\<close>, \<^verbatim>\<open>clan\<close>, \<^verbatim>\<open>tempPlanetId\<close> and \<^verbatim>\<open>defaultDelaySec\<close> are used by none of them).
\<close>

record SalienScript =
  maxRetries :: int
  defaultDelayMs :: nat
  currentPlanetId :: "string option"
  knownPlanets :: "string list"

definition constructor :: SalienScript where
  "constructor = \<lparr> maxRetries = 2, defaultDelayMs = 5000,
     currentPlanetId = None, knownPlanets = [] \<rparr>"

section \<open>RequestAPI\<close>

text \<open>
  The URL: the \<^verbatim>\<open>forEach\<close> appends every parameter followed by \<^verbatim>\<open>&\<close>, then
  \<^verbatim>\<open>substring(0, url.length - 1)\<close> drops the last character. \<open>params = None\<close> is a falsy
  \<^verbatim>\<open>params\<close> argument; an array, also the empty one, is truthy.
\<close>

definition build_url :: "string \<Rightarrow> string list option \<Rightarrow> string" where
  "build_url method params =
     (let url = ''https://community.steam-api.com/'' @ method @ ''/v0001'' in
      case params of
        None \<Rightarrow> url
      | Some ps \<Rightarrow>
          (let url1 = url @ ''/?'';
               url2 = foldl (\<lambda>u param. u @ param @ ''&'') url1 ps
           in take (length url2 - 1) url2))"

text \<open>The decimal rendering of a counter inside a template literal.\<close>

fun decimal :: "nat \<Rightarrow> string" where
  "decimal n =
     (if n < 10 then [''0123456789'' ! n]
      else decimal (n div 10) @ [''0123456789'' ! (n mod 10)])"

declare decimal.simps [simp del]

fun truthy :: "body option \<Rightarrow> bool" where
  "truthy (Some (JObject r)) = True"
| "truthy _ = False"

text \<open>
  The \<^verbatim>\<open>while (!response && retries < maxRetries)\<close> loop, with the loop variables
  \<^verbatim>\<open>response\<close> (\<open>None\<close> is \<^verbatim>\<open>undefined\<close>) and \<^verbatim>\<open>retries\<close> as arguments. It ends with the
  value of \<^verbatim>\<open>response\<close> or with the exception thrown in the \<^verbatim>\<open>catch\<close> block. Every pass
  through the body sends one request, so the recursion consumes the script.
\<close>

function RequestAPI_while ::
  "string \<Rightarrow> string \<Rightarrow> int \<Rightarrow> nat \<Rightarrow> body option \<Rightarrow> nat \<Rightarrow> world
     \<Rightarrow> ((exn + body option) \<times> world) option" where
  "RequestAPI_while method url maxR delayMs response retries w =
     (if \<not> truthy response \<and> int retries < maxR then
        (case script w of
           [] \<Rightarrow> None
         | out # rest \<Rightarrow>
             (let w1 = w\<lparr> script := rest, trace := trace w @ [Fetch url] \<rparr> in
              case out of
                JsonBody b \<Rightarrow> RequestAPI_while method url maxR delayMs (Some b) retries w1
              | _ \<Rightarrow>
                  (let retries1 = retries + 1 in
                   if int retries1 < maxR then
                     RequestAPI_while method url maxR delayMs response retries1
                       (w1\<lparr> trace := trace w1 @ [Delay delayMs] \<rparr>)
                   else
                     Some (Inl (SalienScriptException
                       (Some (''Failed '' @ method @ '' after '' @ decimal retries1 @ '' retries''))),
                       w1))))
      else Some (Inr response, w))"
  by pat_completeness auto
termination
  by (relation "measure (\<lambda>(method, url, maxR, delayMs, response, retries, w). length (script w))")
     auto

declare RequestAPI_while.simps [simp del]

text \<open>
  \<^verbatim>\<open>RequestAPI(method, params, maxRetries)\<close>: the loop from \<^verbatim>\<open>response = undefined\<close>,
  \<^verbatim>\<open>retries = 0\<close>, then \<^verbatim>\<open>return response.response\<close>, which throws a \<^verbatim>\<open>TypeError\<close> when
  \<^verbatim>\<open>response\<close> is \<^verbatim>\<open>undefined\<close> or \<^verbatim>\<open>null\<close>.
\<close>

definition RequestAPI ::
  "SalienScript \<Rightarrow> string \<Rightarrow> string list option \<Rightarrow> int \<Rightarrow> world
     \<Rightarrow> ((exn + api_response option) \<times> world) option" where
  "RequestAPI this method params maxR w =
     (case RequestAPI_while method (build_url method params) maxR (defaultDelayMs this) None 0 w of
        None \<Rightarrow> None
      | Some (Inl e, w1) \<Rightarrow> Some (Inl e, w1)
      | Some (Inr response, w1) \<Rightarrow>
          (case response of
             None \<Rightarrow> Some (Inl (TypeError ''Cannot read property 'response' of undefined''), w1)
           | Some JNull \<Rightarrow> Some (Inl (TypeError ''Cannot read property 'response' of null''), w1)
           | Some JFalsy \<Rightarrow> Some (Inr None, w1)
           | Some (JObject r) \<Rightarrow> Some (Inr r, w1)))"

text \<open>
  \<^verbatim>\<open>ApiGetPlanets\<close> returns \<^verbatim>\<open>response.planets\<close>, \<^verbatim>\<open>ApiGetPlanet\<close> returns
  \<^verbatim>\<open>response.planets[0]\<close>, which is \<^verbatim>\<open>undefined\<close> (\<open>None\<close>) for an empty array.
\<close>

definition ApiGetPlanets ::
  "SalienScript \<Rightarrow> world \<Rightarrow> ((exn + planet list option) \<times> world) option" where
  "ApiGetPlanets this w =
     (case RequestAPI this ''ITerritoryControlMinigameService/GetPlanets''
             (Some [''active_only=1'']) (maxRetries this) w of
        None \<Rightarrow> None
      | Some (Inl e, w1) \<Rightarrow> Some (Inl e, w1)
      | Some (Inr response, w1) \<Rightarrow>
          (case response of
             None \<Rightarrow> Some (Inl (TypeError ''Cannot read property 'planets' of undefined''), w1)
           | Some r \<Rightarrow> Some (Inr (response_planets r), w1)))"

definition ApiGetPlanet ::
  "SalienScript \<Rightarrow> string \<Rightarrow> world \<Rightarrow> ((exn + planet option) \<times> world) option" where
  "ApiGetPlanet this planetId w =
     (case RequestAPI this ''ITerritoryControlMinigameService/GetPlanet''
             (Some [''id='' @ planetId, ''language=english'']) (maxRetries this) w of
        None \<Rightarrow> None
      | Some (Inl e, w1) \<Rightarrow> Some (Inl e, w1)
      | Some (Inr response, w1) \<Rightarrow>
          (case response of
             None \<Rightarrow> Some (Inl (TypeError ''Cannot read property 'planets' of undefined''), w1)
           | Some r \<Rightarrow>
               (case response_planets r of
                  None \<Rightarrow> Some (Inl (TypeError ''Cannot read property '0' of undefined''), w1)
                | Some [] \<Rightarrow> Some (Inr None, w1)
                | Some (p # ps) \<Rightarrow> Some (Inr (Some p), w1))))"

section \<open>setupGame\<close>

text \<open>The local variables of the planet callback that the zone callback updates.\<close>

record tally =
  hardZones :: nat
  mediumZones :: nat
  easyZones :: nat
  unknownZones :: nat
  hasBossZone :: bool

text \<open>
  The values the planet callback gives them: the four counters are 0 and
  \<^verbatim>\<open>let hasBossZone = true\<close>.
\<close>

definition initial_tally :: tally where
  "initial_tally = \<lparr> hardZones = 0, mediumZones = 0, easyZones = 0, unknownZones = 0,
     hasBossZone = True \<rparr>"

text \<open>
  The guard of the zone callback,
  \<^verbatim>\<open>(zone.capture_progress && zone.capture_progress > 0.97) || zone.captured\<close>;
  a number is truthy when it is not 0.
\<close>

definition skipped :: "zone \<Rightarrow> bool" where
  "skipped z =
     ((case capture_progress z of None \<Rightarrow> False | Some x \<Rightarrow> x \<noteq> 0 \<and> x > 97 / 100)
      \<or> captured z)"

text \<open>
  The zone callback of \<^verbatim>\<open>zones.zones.forEach\<close>: return at once for a skipped zone; otherwise
  set the boss flag for type 4 and count the zone by the \<^verbatim>\<open>switch\<close> on its difficulty.
\<close>

definition zone_callback :: "tally \<Rightarrow> zone \<Rightarrow> tally" where
  "zone_callback t z =
     (if skipped z then t
      else
        (let t1 = (if zone_type z = 4 then t\<lparr> hasBossZone := True \<rparr> else t) in
         if difficulty z = 3 then t1\<lparr> hardZones := hardZones t1 + 1 \<rparr>
         else if difficulty z = 2 then t1\<lparr> mediumZones := mediumZones t1 + 1 \<rparr>
         else if difficulty z = 1 then t1\<lparr> easyZones := easyZones t1 + 1 \<rparr>
         else t1\<lparr> unknownZones := unknownZones t1 + 1 \<rparr>))"

text \<open>
  \<^verbatim>\<open>while (!zones) { zones = await _this.ApiGetPlanet(planet.id); }\<close>: the variable \<^verbatim>\<open>zones\<close>
  holds the planet object that \<^verbatim>\<open>ApiGetPlanet\<close> returned; the loop asks again as long as that
  is \<^verbatim>\<open>undefined\<close>. A call that returns has sent a request, which bounds the recursion by the
  script.
\<close>

function while_not_zones ::
  "SalienScript \<Rightarrow> string \<Rightarrow> world \<Rightarrow> ((exn + planet) \<times> world) option" where
  "while_not_zones this planetId w =
     (case ApiGetPlanet this planetId w of
        None \<Rightarrow> None
      | Some (Inl e, w1) \<Rightarrow> Some (Inl e, w1)
      | Some (Inr None, w1) \<Rightarrow> while_not_zones this planetId w1
      | Some (Inr (Some fetched), w1) \<Rightarrow> Some (Inr fetched, w1))"
  by pat_completeness auto
termination
proof (relation "measure (\<lambda>(this, planetId, w). length (script w))")
  show "wf (measure (\<lambda>(this, planetId, w). length (script w)))" by simp
next
  fix this :: SalienScript and planetId :: string and w w1 :: world
    and x2 :: "(exn + planet option) \<times> world" and x1 :: "exn + planet option"
    and b :: "planet option"
  assume call: "ApiGetPlanet this planetId w = Some x2" and x2: "(x1, w1) = x2"
    and x1: "x1 = Inr b"
  have loop:
    "RequestAPI_while m url maxR delayMs response retries w = Some (Inr resp, w1) \<Longrightarrow>
       (resp = response \<and> w1 = w \<and> (truthy response \<or> \<not> int retries < maxR))
       \<or> (truthy resp \<and> length (script w1) < length (script w))"
    for m url maxR delayMs response retries w resp w1
  proof (induction m url maxR delayMs response retries w
      rule: RequestAPI_while.induct)
    case (1 m url maxR delayMs response retries w)
    show ?case
    proof (cases "\<not> truthy response \<and> int retries < maxR")
      case False
      with "1.prems" show ?thesis
        by (simp add: RequestAPI_while.simps [of m url maxR delayMs response retries w])
    next
      case enter: True
      show ?thesis
      proof (cases "script w")
        case Nil
        with enter "1.prems" show ?thesis
          by (simp add: RequestAPI_while.simps [of m url maxR delayMs response retries w])
      next
        case (Cons out rest)
        let ?w1 = "w\<lparr> script := rest, trace := trace w @ [Fetch url] \<rparr>"
        let ?w2 = "?w1\<lparr> trace := trace ?w1 @ [Delay delayMs] \<rparr>"
        show ?thesis
        proof (cases out)
          case (JsonBody b)
          with enter Cons "1.prems"
          have run: "RequestAPI_while m url maxR delayMs (Some b) retries ?w1 = Some (Inr resp, w1)"
            by (simp add: RequestAPI_while.simps [of m url maxR delayMs response retries w])
          from "1.IH"(3) [OF enter Cons refl JsonBody run] enter Cons
          show ?thesis by auto
        next
          case NetworkError
          show ?thesis
          proof (cases "int (retries + 1) < maxR")
            case True
            with enter Cons NetworkError "1.prems"
            have run: "RequestAPI_while m url maxR delayMs response (retries + 1) ?w2
                         = Some (Inr resp, w1)"
              by (simp add: RequestAPI_while.simps [of m url maxR delayMs response retries w])
            from "1.IH"(1) [OF enter Cons refl NetworkError refl True run] enter Cons True
            show ?thesis by auto
          next
            case False
            with enter Cons NetworkError "1.prems" show ?thesis
              by (simp add: RequestAPI_while.simps [of m url maxR delayMs response retries w])
          qed
        next
          case NonJsonBody
          show ?thesis
          proof (cases "int (retries + 1) < maxR")
            case True
            with enter Cons NonJsonBody "1.prems"
            have run: "RequestAPI_while m url maxR delayMs response (retries + 1) ?w2
                         = Some (Inr resp, w1)"
              by (simp add: RequestAPI_while.simps [of m url maxR delayMs response retries w])
            from "1.IH"(2) [OF enter Cons refl NonJsonBody refl True run] enter Cons True
            show ?thesis by auto
          next
            case False
            with enter Cons NonJsonBody "1.prems" show ?thesis
              by (simp add: RequestAPI_while.simps [of m url maxR delayMs response retries w])
          qed
        qed
      qed
    qed
  qed
  have request: "length (script w1) < length (script w)"
    if "RequestAPI this m params maxR w = Some (Inr r, w1)" for m params maxR r
  proof -
    from that obtain resp where
      run: "RequestAPI_while m (build_url m params) maxR (defaultDelayMs this) None 0 w
              = Some (Inr resp, w1)"
      and resp: "resp \<noteq> None"
      by (auto simp: RequestAPI_def split: option.splits sum.splits body.splits)
    from loop [OF run] resp show ?thesis by auto
  qed
  from call x2 x1 have "length (script w1) < length (script w)"
    by (auto simp: ApiGetPlanet_def split: option.splits sum.splits list.splits
          dest: request)
  then show "((this, planetId, w1), (this, planetId, w)) \<in>
    measure (\<lambda>(this, planetId, w). length (script w))" by simp
qed

declare while_not_zones.simps [simp del]

text \<open>
  The planet callback handed to \<^verbatim>\<open>asyncForEach\<close>, in the order of its statements. It pushes
  the planet id and fetches the planet object. \<^verbatim>\<open>zones.zones.forEach\<close> throws a \<^verbatim>\<open>TypeError\<close>
  when the fetched object has no \<^verbatim>\<open>zones\<close>; otherwise the zone callback runs over the zones.
  \<^verbatim>\<open>planet.state.capture_progress\<close> throws when the list entry has no \<^verbatim>\<open>state\<close>, and
  \<^verbatim>\<open>planet.state.name.replace\<close> throws when the state has no \<^verbatim>\<open>name\<close>; a missing
  \<^verbatim>\<open>capture_progress\<close> only makes the percentage \<^verbatim>\<open>NaN\<close>. Both values go to the summary line
  only, whose planet id and counts the model keeps. Then, when the boss flag is set, the
  callback stores the planet id and throws \<^verbatim>\<open>new SalienScriptException()\<close>. The object
  \<^verbatim>\<open>_this\<close> is mutated in place, so its state is part of the result also when the callback
  throws. The callback does not use its \<^verbatim>\<open>index\<close> and \<^verbatim>\<open>array\<close> arguments.
\<close>

definition callback ::
  "planet \<Rightarrow> SalienScript \<Rightarrow> world \<Rightarrow> ((exn + unit) \<times> SalienScript \<times> world) option" where
  "callback planet this w =
     (let this1 = this\<lparr> knownPlanets := knownPlanets this @ [planet_id planet] \<rparr> in
      case while_not_zones this1 (planet_id planet) w of
        None \<Rightarrow> None
      | Some (Inl e, w1) \<Rightarrow> Some (Inl e, this1, w1)
      | Some (Inr fetched, w1) \<Rightarrow>
          (case zones fetched of
             None \<Rightarrow>
               Some (Inl (TypeError ''Cannot read property 'forEach' of undefined''), this1, w1)
           | Some zs \<Rightarrow>
               (let t = foldl zone_callback initial_tally zs in
                case state planet of
                  None \<Rightarrow>
                    Some (Inl (TypeError
                      ''Cannot read property 'capture_progress' of undefined''), this1, w1)
                | Some st \<Rightarrow>
                    (case state_name st of
                       None \<Rightarrow>
                         Some (Inl (TypeError ''Cannot read property 'replace' of undefined''),
                           this1, w1)
                     | Some planetName \<Rightarrow>
                         (let w2 = w1\<lparr> trace := trace w1 @
                                 [PlanetLine (planet_id planet) (hardZones t) (mediumZones t)
                                    (easyZones t) (unknownZones t)] \<rparr>
                          in if hasBossZone t then
                               Some (Inl (SalienScriptException None),
                                 this1\<lparr> currentPlanetId := Some (planet_id planet) \<rparr>, w2)
                             else Some (Inr (), this1, w2))))))"

text \<open>\<^verbatim>\<open>asyncForEach\<close>: the callback on every element in index order, until one throws.\<close>

fun asyncForEach ::
  "SalienScript \<Rightarrow> 'a list
     \<Rightarrow> ('a \<Rightarrow> SalienScript \<Rightarrow> world \<Rightarrow> ((exn + unit) \<times> SalienScript \<times> world) option)
     \<Rightarrow> world \<Rightarrow> ((exn + unit) \<times> SalienScript \<times> world) option" where
  "asyncForEach this [] cb w = Some (Inr (), this, w)"
| "asyncForEach this (x # xs) cb w =
     (case cb x this w of
        None \<Rightarrow> None
      | Some (Inl e, this1, w1) \<Rightarrow> Some (Inl e, this1, w1)
      | Some (Inr u, this1, w1) \<Rightarrow> asyncForEach this1 xs cb w1)"

text \<open>
  \<^verbatim>\<open>setupGame\<close>: an exception of \<^verbatim>\<open>ApiGetPlanets\<close> propagates; a falsy \<^verbatim>\<open>planets\<close> throws
  "Didn't find any planets."; an exception out of \<^verbatim>\<open>asyncForEach\<close> is swallowed when its
  \<^verbatim>\<open>name\<close> is \<^verbatim>\<open>SalienScriptException\<close> and is rethrown as
  \<^verbatim>\<open>new SalienScriptException(e.message)\<close> otherwise.
\<close>

definition setupGame ::
  "SalienScript \<Rightarrow> world \<Rightarrow> ((exn + unit) \<times> SalienScript \<times> world) option" where
  "setupGame this w =
     (case ApiGetPlanets this w of
        None \<Rightarrow> None
      | Some (Inl e, w1) \<Rightarrow> Some (Inl e, this, w1)
      | Some (Inr None, w1) \<Rightarrow>
          Some (Inl (SalienScriptException (Some ''Didn't find any planets.'')), this, w1)
      | Some (Inr (Some planets), w1) \<Rightarrow>
          (case asyncForEach this planets callback w1 of
             None \<Rightarrow> None
           | Some (Inl e, this2, w2) \<Rightarrow>
               if name e = ''SalienScriptException'' then Some (Inr (), this2, w2)
               else Some (Inl (SalienScriptException (message e)), this2, w2)
           | Some (Inr u, this2, w2) \<Rightarrow> Some (Inr (), this2, w2)))"

section \<open>Notions of the specification\<close>

text \<open>Parameters joined with \<^verbatim>\<open>&\<close>: the separator stands between two neighbours only.\<close>

fun join_amp :: "string list \<Rightarrow> string" where
  "join_amp [] = []"
| "join_amp [p] = p"
| "join_amp (p # q # ps) = p @ ''&'' @ join_amp (q # ps)"

text \<open>
  The specification's eligible zone: not captured, and capture progress at most 0.97
  (a zone without capture progress has made none).
\<close>

definition eligible :: "zone \<Rightarrow> bool" where
  "eligible z =
     (\<not> captured z \<and> (case capture_progress z of None \<Rightarrow> True | Some x \<Rightarrow> x \<le> 97 / 100))"

text \<open>
  The number of eligible zones whose difficulty satisfies \<open>P\<close>: what a difficulty bucket of a
  planet has to hold.
\<close>

definition bucket_count :: "(int \<Rightarrow> bool) \<Rightarrow> zone list \<Rightarrow> nat" where
  "bucket_count P zs = length [z \<leftarrow> zs. eligible z \<and> P (difficulty z)]"

text \<open>
  The planets that a pass scans: those on which \<^verbatim>\<open>asyncForEach\<close> invokes the planet callback,
  that is, every planet up to and including the first on which the callback does not return
  normally.
\<close>

fun scanned :: "SalienScript \<Rightarrow> planet list \<Rightarrow> world \<Rightarrow> planet list" where
  "scanned this [] w = []"
| "scanned this (p # ps) w =
     p # (case callback p this w of
            Some (Inr u, this1, w1) \<Rightarrow> scanned this1 ps w1
          | _ \<Rightarrow> [])"

section \<open>The request URL\<close>

lemma foldl_append_params:
  "foldl (\<lambda>u param. u @ param @ ''&'') u ps = u @ concat (map (\<lambda>param. param @ ''&'') ps)"
  by (induction ps arbitrary: u) simp_all

lemma concat_params_join:
  "ps \<noteq> [] \<Longrightarrow> concat (map (\<lambda>param. param @ ''&'') ps) = join_amp ps @ ''&''"
  by (induction ps rule: join_amp.induct) simp_all

lemma join_amp_ends: "ps \<noteq> [] \<Longrightarrow> suffix (last ps) (join_amp ps)"
proof (induction ps rule: join_amp.induct)
  case (3 p q ps)
  then have "suffix (last (q # ps)) (join_amp (q # ps))" by simp
  then have "suffix (last (q # ps)) (p @ ''&'' @ join_amp (q # ps))"
    by (metis append.assoc suffix_appendI)
  then show ?case by simp
qed simp_all

lemma build_url_join:
  "ps \<noteq> [] \<Longrightarrow> build_url method (Some ps)
     = ''https://community.steam-api.com/'' @ method @ ''/v0001/?'' @ join_amp ps"
  by (simp add: build_url_def Let_def foldl_append_params concat_params_join)

text \<open>
  Claim C4. For every method name and every non-empty sequence of parameter strings, the URL
  that \<^verbatim>\<open>RequestAPI\<close> requests is the base, the method, \<^verbatim>\<open>/v0001/?\<close> and the parameters joined
  with \<^verbatim>\<open>&\<close>; nothing follows the last parameter. The instance below is the specification's
  example, method \<^verbatim>\<open>X\<close> with \<^verbatim>\<open>id=5\<close> and \<^verbatim>\<open>language=english\<close>.
\<close>

theorem RequestAPI_url_joined:
  assumes "ps \<noteq> []"
  shows "build_url method (Some ps)
           = ''https://community.steam-api.com/'' @ method @ ''/v0001/?'' @ join_amp ps
         \<and> suffix (last ps) (build_url method (Some ps))"
proof -
  have url: "build_url method (Some ps)
     = (''https://community.steam-api.com/'' @ method @ ''/v0001/?'') @ join_amp ps"
    using assms by (simp add: build_url_join)
  from join_amp_ends [OF assms] have "suffix (last ps) (build_url method (Some ps))"
    unfolding url by (rule suffix_appendI)
  with url show ?thesis by simp
qed

theorem RequestAPI_url_joined_witness:
  "[''id=5'', ''language=english''] \<noteq> []
   \<and> build_url ''X'' (Some [''id=5'', ''language=english''])
       = ''https://community.steam-api.com/X/v0001/?id=5&language=english''"
  using RequestAPI_url_joined [of "[''id=5'', ''language=english'']" "''X''"] by simp

section \<open>The retry loop\<close>

lemma RequestAPI_while_failures:
  assumes "script w = fails @ rest"
    and "\<forall>out \<in> set fails. out = NetworkError \<or> out = NonJsonBody"
    and "int (retries + length fails) < maxR" and "\<not> truthy response"
  shows "RequestAPI_while m url maxR d response retries w
     = RequestAPI_while m url maxR d response (retries + length fails)
         (w\<lparr> script := rest,
            trace := trace w @ concat (replicate (length fails) [Fetch url, Delay d]) \<rparr>)"
  using assms
proof (induction fails arbitrary: retries w)
  case Nil
  then show ?case by (cases w) simp
next
  case (Cons out fails)
  let ?w = "w\<lparr> script := fails @ rest, trace := trace w @ [Fetch url, Delay d] \<rparr>"
  from Cons.prems have out: "out = NetworkError \<or> out = NonJsonBody"
    and fails: "\<forall>out \<in> set fails. out = NetworkError \<or> out = NonJsonBody"
    and more: "int (Suc retries + length fails) < maxR"
    and w: "script w = out # fails @ rest" by simp_all
  from more have now: "int retries < maxR" and next1: "int (retries + 1) < maxR" by simp_all
  have "RequestAPI_while m url maxR d response retries w
      = RequestAPI_while m url maxR d response (Suc retries) ?w"
    using out now next1 w Cons.prems(4)
    by (subst RequestAPI_while.simps) auto
  also have "\<dots> = RequestAPI_while m url maxR d response (Suc retries + length fails)
         (?w\<lparr> script := rest,
            trace := trace ?w @ concat (replicate (length fails) [Fetch url, Delay d]) \<rparr>)"
    by (rule Cons.IH [OF _ fails more Cons.prems(4)]) simp
  finally show ?case by simp
qed

lemma RequestAPI_while_success:
  assumes "script w = JsonBody (JObject r) # rest"
    and "\<not> truthy response" and "int retries < maxR"
  shows "RequestAPI_while m url maxR d response retries w
     = Some (Inr (Some (JObject r)), w\<lparr> script := rest, trace := trace w @ [Fetch url] \<rparr>)"
  using assms
  by (subst RequestAPI_while.simps, simp, subst RequestAPI_while.simps, simp)

lemma RequestAPI_while_exhausted:
  assumes "script w = out # rest" and "out = NetworkError \<or> out = NonJsonBody"
    and "\<not> truthy response" and "int retries < maxR" and "\<not> int (retries + 1) < maxR"
  shows "RequestAPI_while m url maxR d response retries w
     = Some (Inl (SalienScriptException
          (Some (''Failed '' @ m @ '' after '' @ decimal (retries + 1) @ '' retries''))),
        w\<lparr> script := rest, trace := trace w @ [Fetch url] \<rparr>)"
  using assms by (subst RequestAPI_while.simps) auto


text \<open>
  Claim C3, as amended. Let the ceiling be \<open>N = length fails + 1\<close>, where \<open>fails\<close> are \<open>N - 1\<close>
  transport failures (the request rejects or the body is not JSON), and let the delay be the
  constructor's 5000 ms. If the next outcome is a truthy decoded body, the call returns its
  \<^verbatim>\<open>response\<close> member after exactly \<open>N\<close> requests. If the next outcome is one more failure, the
  call throws \<^verbatim>\<open>SalienScriptException\<close> with the message "Failed <method> after <N> retries"
  after exactly \<open>N\<close> requests. In both cases a \<^verbatim>\<open>delay(5000)\<close> stands between two consecutive
  requests and nowhere else.
\<close>

theorem RequestAPI_retries:
  assumes "\<forall>out \<in> set fails. out = NetworkError \<or> out = NonJsonBody"
    and "defaultDelayMs this = 5000"
  shows "(script w = fails @ JsonBody (JObject r) # rest \<longrightarrow>
            RequestAPI this method params (int (length fails) + 1) w
              = Some (Inr r,
                  w\<lparr> script := rest,
                     trace := trace w
                       @ concat (replicate (length fails)
                           [Fetch (build_url method params), Delay 5000])
                       @ [Fetch (build_url method params)] \<rparr>))
       \<and> ((out = NetworkError \<or> out = NonJsonBody) \<and> script w = fails @ out # rest \<longrightarrow>
            RequestAPI this method params (int (length fails) + 1) w
              = Some (Inl (SalienScriptException (Some
                    (''Failed '' @ method @ '' after '' @ decimal (length fails + 1)
                       @ '' retries''))),
                  w\<lparr> script := rest,
                     trace := trace w
                       @ concat (replicate (length fails)
                           [Fetch (build_url method params), Delay 5000])
                       @ [Fetch (build_url method params)] \<rparr>))"
proof (intro conjI impI)
  let ?url = "build_url method params"
  let ?w = "\<lambda>rest'. w\<lparr> script := rest',
     trace := trace w @ concat (replicate (length fails) [Fetch ?url, Delay 5000]) \<rparr>"
  have skip: "RequestAPI_while method ?url (int (length fails) + 1) 5000 None 0 w
      = RequestAPI_while method ?url (int (length fails) + 1) 5000 None (length fails) (?w rest')"
    if "script w = fails @ rest'" for rest'
    using RequestAPI_while_failures [OF that assms(1), of 0 "int (length fails) + 1" None _ ?url 5000]
    by simp
  {
    assume w: "script w = fails @ JsonBody (JObject r) # rest"
    have "RequestAPI_while method ?url (int (length fails) + 1) 5000 None (length fails)
            (?w (JsonBody (JObject r) # rest))
        = Some (Inr (Some (JObject r)),
            (?w (JsonBody (JObject r) # rest))\<lparr> script := rest,
               trace := trace (?w (JsonBody (JObject r) # rest)) @ [Fetch ?url] \<rparr>)"
      by (rule RequestAPI_while_success) simp_all
    with skip [OF w] assms(2)
    show "RequestAPI this method params (int (length fails) + 1) w
        = Some (Inr r, w\<lparr> script := rest,
            trace := trace w @ concat (replicate (length fails) [Fetch ?url, Delay 5000])
              @ [Fetch ?url] \<rparr>)"
      by (simp add: RequestAPI_def)
  }
  {
    assume "(out = NetworkError \<or> out = NonJsonBody) \<and> script w = fails @ out # rest"
    then have out: "out = NetworkError \<or> out = NonJsonBody"
      and w: "script w = fails @ out # rest" by simp_all
    have "RequestAPI_while method ?url (int (length fails) + 1) 5000 None (length fails)
            (?w (out # rest))
        = Some (Inl (SalienScriptException (Some
              (''Failed '' @ method @ '' after '' @ decimal (length fails + 1) @ '' retries''))),
            (?w (out # rest))\<lparr> script := rest,
               trace := trace (?w (out # rest)) @ [Fetch ?url] \<rparr>)"
      by (rule RequestAPI_while_exhausted [OF _ out]) simp_all
    with skip [OF w] assms(2)
    show "RequestAPI this method params (int (length fails) + 1) w
        = Some (Inl (SalienScriptException (Some
              (''Failed '' @ method @ '' after '' @ decimal (length fails + 1) @ '' retries''))),
            w\<lparr> script := rest,
              trace := trace w @ concat (replicate (length fails) [Fetch ?url, Delay 5000])
                @ [Fetch ?url] \<rparr>)"
      by (simp add: RequestAPI_def)
  }
qed

theorem RequestAPI_retries_witness:
  "defaultDelayMs constructor = 5000
   \<and> RequestAPI constructor ''X'' None 2
         \<lparr> script = [NetworkError, JsonBody (JObject None)], trace = [] \<rparr>
       = Some (Inr None,
           \<lparr> script = [],
              trace = [Fetch ''https://community.steam-api.com/X/v0001'', Delay 5000,
                       Fetch ''https://community.steam-api.com/X/v0001''] \<rparr>)
   \<and> RequestAPI constructor ''X'' None 2
         \<lparr> script = [NetworkError, NonJsonBody], trace = [] \<rparr>
       = Some (Inl (SalienScriptException (Some ''Failed X after 2 retries'')),
           \<lparr> script = [],
              trace = [Fetch ''https://community.steam-api.com/X/v0001'', Delay 5000,
                       Fetch ''https://community.steam-api.com/X/v0001''] \<rparr>)"
  using RequestAPI_retries [of "[NetworkError]" constructor
          "\<lparr> script = [NetworkError, JsonBody (JObject None)], trace = [] \<rparr>" None "[]"
          "''X''" None NonJsonBody]
        RequestAPI_retries [of "[NetworkError]" constructor
          "\<lparr> script = [NetworkError, NonJsonBody], trace = [] \<rparr>" None "[]"
          "''X''" None NonJsonBody]
  by (simp add: constructor_def build_url_def decimal.simps)

text \<open>
  The claim without the restriction to a truthy body fails. With ceiling 1, the first request
  decodes the JSON body \<^verbatim>\<open>null\<close>: \<^verbatim>\<open>!response\<close> still holds and \<^verbatim>\<open>retries\<close> was not
  incremented, so a second request follows at once; it fails and the call throws.
\<close>

theorem RequestAPI_null_body_counterexample:
  "RequestAPI constructor ''X'' None 1 \<lparr> script = [JsonBody JNull, NetworkError], trace = [] \<rparr>
     = Some (Inl (SalienScriptException (Some ''Failed X after 1 retries'')),
         \<lparr> script = [],
            trace = [Fetch ''https://community.steam-api.com/X/v0001'',
                     Fetch ''https://community.steam-api.com/X/v0001''] \<rparr>)"
  by (simp add: RequestAPI_def RequestAPI_while.simps build_url_def decimal.simps)

text \<open>
  Claim C10. With \<^verbatim>\<open>maxRetries = 0\<close> the loop body never runs: no request is sent (the world
  is unchanged), \<^verbatim>\<open>response\<close> is still \<^verbatim>\<open>undefined\<close>, and \<^verbatim>\<open>return response.response\<close> throws a
  \<^verbatim>\<open>TypeError\<close>, not a \<^verbatim>\<open>SalienScriptException\<close>.
\<close>

theorem RequestAPI_zero_retries:
  "RequestAPI this method params 0 w
     = Some (Inl (TypeError ''Cannot read property 'response' of undefined''), w)"
  by (simp add: RequestAPI_def RequestAPI_while.simps)

section \<open>The zone callback\<close>

lemma skipped_iff_not_eligible: "skipped z \<longleftrightarrow> \<not> eligible z"
  by (auto simp: skipped_def eligible_def split: option.splits)

lemma boss_flag_stays: "hasBossZone t \<Longrightarrow> hasBossZone (foldl zone_callback t zs)"
  by (induction zs arbitrary: t) (simp_all add: zone_callback_def Let_def)

lemma hardZones_foldl:
  "hardZones (foldl zone_callback t zs) = hardZones t + bucket_count (\<lambda>d. d = 3) zs"
  by (induction zs arbitrary: t)
     (simp_all add: bucket_count_def zone_callback_def Let_def skipped_iff_not_eligible)

lemma mediumZones_foldl:
  "mediumZones (foldl zone_callback t zs) = mediumZones t + bucket_count (\<lambda>d. d = 2) zs"
  by (induction zs arbitrary: t)
     (simp_all add: bucket_count_def zone_callback_def Let_def skipped_iff_not_eligible)

lemma easyZones_foldl:
  "easyZones (foldl zone_callback t zs) = easyZones t + bucket_count (\<lambda>d. d = 1) zs"
  by (induction zs arbitrary: t)
     (simp_all add: bucket_count_def zone_callback_def Let_def skipped_iff_not_eligible)

lemma unknownZones_foldl:
  "unknownZones (foldl zone_callback t zs)
     = unknownZones t + bucket_count (\<lambda>d. d \<noteq> 3 \<and> d \<noteq> 2 \<and> d \<noteq> 1) zs"
  by (induction zs arbitrary: t)
     (simp_all add: bucket_count_def zone_callback_def Let_def skipped_iff_not_eligible)




section \<open>The planet callback\<close>

text \<open>
  The requests read \<^verbatim>\<open>maxRetries\<close> and \<^verbatim>\<open>defaultDelayMs\<close> only; \<^verbatim>\<open>knownPlanets\<close> and
  \<^verbatim>\<open>currentPlanetId\<close> have no influence on them.
\<close>

lemma ApiGetPlanets_config:
  "maxRetries a = maxRetries b \<Longrightarrow> defaultDelayMs a = defaultDelayMs b \<Longrightarrow>
     ApiGetPlanets a w = ApiGetPlanets b w"
  by (simp add: ApiGetPlanets_def RequestAPI_def)

lemma ApiGetPlanet_config:
  "maxRetries a = maxRetries b \<Longrightarrow> defaultDelayMs a = defaultDelayMs b \<Longrightarrow>
     ApiGetPlanet a planetId w = ApiGetPlanet b planetId w"
  by (simp add: ApiGetPlanet_def RequestAPI_def)

lemma while_not_zones_config:
  assumes "maxRetries a = maxRetries b" and "defaultDelayMs a = defaultDelayMs b"
  shows "while_not_zones a planetId w = while_not_zones b planetId w"
  using assms
proof (induction a planetId w rule: while_not_zones.induct)
  case (1 this planetId w)
  have same: "ApiGetPlanet this planetId w = ApiGetPlanet b planetId w"
    using "1.prems" by (rule ApiGetPlanet_config)
  show ?case
  proof (cases "ApiGetPlanet this planetId w")
    case None
    with same have "ApiGetPlanet b planetId w = None" by simp
    with None show ?thesis
      by (simp add: while_not_zones.simps [of this] while_not_zones.simps [of b])
  next
    case (Some x)
    obtain res w1 where x: "x = (res, w1)" by (cases x)
    from same Some x have call: "ApiGetPlanet this planetId w = Some (res, w1)"
      and call_b: "ApiGetPlanet b planetId w = Some (res, w1)" by simp_all
    show ?thesis
    proof (cases res)
      case (Inl e)
      with call call_b show ?thesis
        by (simp add: while_not_zones.simps [of this] while_not_zones.simps [of b])
    next
      case (Inr got)
      show ?thesis
      proof (cases got)
        case None
        from "1.IH" [OF Some x [symmetric] Inr None "1.prems"]
        have "while_not_zones this planetId w1 = while_not_zones b planetId w1" .
        with call call_b Inr None show ?thesis
          by (simp add: while_not_zones.simps [of this planetId w]
                while_not_zones.simps [of b planetId w])
      next
        case (Some fetched)
        with call call_b Inr show ?thesis
          by (simp add: while_not_zones.simps [of this] while_not_zones.simps [of b])
      qed
    qed
  qed
qed

text \<open>
  The boss flag starts as true and the zone callback only ever sets it to true, so the planet
  callback never returns normally: it throws what the fetch loop threw, or the \<^verbatim>\<open>TypeError\<close> of
  a missing \<^verbatim>\<open>zones\<close>, \<^verbatim>\<open>state\<close> or \<^verbatim>\<open>state.name\<close>, or it stores the planet id and throws the
  selection signal.
\<close>

lemma callback_result:
  "callback p this w =
     (case while_not_zones this (planet_id p) w of
        None \<Rightarrow> None
      | Some (Inl e, w1) \<Rightarrow>
          Some (Inl e, this\<lparr> knownPlanets := knownPlanets this @ [planet_id p] \<rparr>, w1)
      | Some (Inr fetched, w1) \<Rightarrow>
          (case zones fetched of
             None \<Rightarrow>
               Some (Inl (TypeError ''Cannot read property 'forEach' of undefined''),
                 this\<lparr> knownPlanets := knownPlanets this @ [planet_id p] \<rparr>, w1)
           | Some zs \<Rightarrow>
               (case state p of
                  None \<Rightarrow>
                    Some (Inl (TypeError
                      ''Cannot read property 'capture_progress' of undefined''),
                      this\<lparr> knownPlanets := knownPlanets this @ [planet_id p] \<rparr>, w1)
                | Some st \<Rightarrow>
                    (case state_name st of
                       None \<Rightarrow>
                         Some (Inl (TypeError ''Cannot read property 'replace' of undefined''),
                           this\<lparr> knownPlanets := knownPlanets this @ [planet_id p] \<rparr>, w1)
                     | Some planetName \<Rightarrow>
                         Some (Inl (SalienScriptException None),
                           this\<lparr> currentPlanetId := Some (planet_id p),
                                 knownPlanets := knownPlanets this @ [planet_id p] \<rparr>,
                           w1\<lparr> trace := trace w1 @
                             [PlanetLine (planet_id p)
                                (bucket_count (\<lambda>d. d = 3) zs)
                                (bucket_count (\<lambda>d. d = 2) zs)
                                (bucket_count (\<lambda>d. d = 1) zs)
                                (bucket_count (\<lambda>d. d \<noteq> 3 \<and> d \<noteq> 2 \<and> d \<noteq> 1) zs)] \<rparr>)))))"
proof -
  have loop: "while_not_zones (this\<lparr> knownPlanets := knownPlanets this @ [planet_id p] \<rparr>)
      (planet_id p) w = while_not_zones this (planet_id p) w"
    by (rule while_not_zones_config) simp_all
  have flag: "hasBossZone (foldl zone_callback initial_tally zs)" for zs
    by (rule boss_flag_stays) (simp add: initial_tally_def)
  have zero: "hardZones initial_tally = 0" "mediumZones initial_tally = 0"
    "easyZones initial_tally = 0" "unknownZones initial_tally = 0"
    by (simp_all add: initial_tally_def)
  show ?thesis
    by (simp add: callback_def Let_def loop flag zero hardZones_foldl mediumZones_foldl
          easyZones_foldl unknownZones_foldl
          split: option.splits sum.splits prod.splits)
qed

lemma callback_throws: "callback p this w \<noteq> Some (Inr u, this1, w1)"
  by (simp add: callback_result split: option.splits sum.splits prod.splits)

lemma asyncForEach_callback: "asyncForEach this (p # ps) callback w = callback p this w"
proof (cases "callback p this w")
  case None
  then show ?thesis by simp
next
  case (Some x)
  obtain res this1 w1 where x: "x = (res, this1, w1)" by (cases x)
  with Some callback_throws [of p this w _ this1 w1] show ?thesis
    by (cases res) simp_all
qed


lemmas run_defs = setupGame_def ApiGetPlanets_def ApiGetPlanet_def RequestAPI_def
  RequestAPI_while.simps while_not_zones.simps callback_def constructor_def build_url_def
  initial_tally_def zone_callback_def skipped_def Let_def




section \<open>The selection pass\<close>

lemma setupGame_result:
  "setupGame this w =
     (case ApiGetPlanets this w of
        None \<Rightarrow> None
      | Some (Inl e, w0) \<Rightarrow> Some (Inl e, this, w0)
      | Some (Inr None, w0) \<Rightarrow>
          Some (Inl (SalienScriptException (Some ''Didn't find any planets.'')), this, w0)
      | Some (Inr (Some []), w0) \<Rightarrow> Some (Inr (), this, w0)
      | Some (Inr (Some (p # ps)), w0) \<Rightarrow>
          (case callback p this w0 of
             None \<Rightarrow> None
           | Some (Inl e, this2, w2) \<Rightarrow>
               if name e = ''SalienScriptException'' then Some (Inr (), this2, w2)
               else Some (Inl (SalienScriptException (message e)), this2, w2)
           | Some (Inr u, this2, w2) \<Rightarrow> Some (Inr (), this2, w2)))"
  unfolding setupGame_def
  by (simp add: asyncForEach_callback del: asyncForEach.simps(2)
        split: option.split sum.split prod.split list.split)

text \<open>
  Two objects with the same \<^verbatim>\<open>maxRetries\<close> and \<^verbatim>\<open>defaultDelayMs\<close> take the callback, and so the
  pass, the same way: same result, same final world, and either both store the same planet
  id or both keep the \<^verbatim>\<open>currentPlanetId\<close> they had.
\<close>

lemma callback_config:
  assumes "maxRetries b = maxRetries a" and "defaultDelayMs b = defaultDelayMs a"
    and "callback p a w = Some (r, a1, w1)"
  shows "\<exists>b1. callback p b w = Some (r, b1, w1)
           \<and> maxRetries a1 = maxRetries a \<and> defaultDelayMs a1 = defaultDelayMs a
           \<and> (currentPlanetId a1 = currentPlanetId b1
                \<or> currentPlanetId a1 = currentPlanetId a \<and> currentPlanetId b1 = currentPlanetId b)"
proof -
  have loop: "while_not_zones b planetId w0 = while_not_zones a planetId w0" for planetId w0
    using assms(1,2) by (rule while_not_zones_config)
  from assms(3) show ?thesis
    unfolding callback_result [of p a] callback_result [of p b] loop
    by (auto split: option.splits sum.splits prod.splits)
qed

lemma setupGame_config:
  assumes "maxRetries b = maxRetries a" and "defaultDelayMs b = defaultDelayMs a"
    and "setupGame a w = Some (r, a1, w1)"
  shows "\<exists>b1. setupGame b w = Some (r, b1, w1)
           \<and> maxRetries a1 = maxRetries a \<and> defaultDelayMs a1 = defaultDelayMs a
           \<and> (currentPlanetId a1 = currentPlanetId b1
                \<or> currentPlanetId a1 = currentPlanetId a \<and> currentPlanetId b1 = currentPlanetId b)"
proof -
  have planets: "ApiGetPlanets b w = ApiGetPlanets a w"
    using assms(1,2) by (rule ApiGetPlanets_config)
  show ?thesis
  proof (cases "ApiGetPlanets a w")
    case None
    with assms(3) show ?thesis by (simp add: setupGame_result)
  next
    case (Some x)
    obtain res w0 where x: "x = (res, w0)" by (cases x)
    show ?thesis
    proof (cases res)
      case (Inl e)
      with Some x planets assms(3) show ?thesis by (auto simp: setupGame_result)
    next
      case (Inr got)
      show ?thesis
      proof (cases got)
        case None
        with Some x Inr planets assms(3) show ?thesis by (auto simp: setupGame_result)
      next
        case got: (Some planets0)
        show ?thesis
        proof (cases planets0)
          case Nil
          with Some x Inr got planets assms(3) show ?thesis by (auto simp: setupGame_result)
        next
          case (Cons p ps)
          from Some x Inr got Cons have list_a: "ApiGetPlanets a w = Some (Inr (Some (p # ps)), w0)"
            by simp
          with planets have list_b: "ApiGetPlanets b w = Some (Inr (Some (p # ps)), w0)"
            by simp
          from assms(3) list_a obtain r0 where
            cb: "callback p a w0 = Some (r0, a1, w1)"
            and r: "r = (case r0 of
                     Inl e \<Rightarrow> if name e = ''SalienScriptException'' then Inr ()
                              else Inl (SalienScriptException (message e))
                   | Inr u \<Rightarrow> Inr ())"
            by (auto simp: setupGame_result split: option.splits sum.splits prod.splits if_splits)
          from callback_config [OF assms(1,2) cb] obtain b1 where
            cb_b: "callback p b w0 = Some (r0, b1, w1)"
            and rest: "maxRetries a1 = maxRetries a" "defaultDelayMs a1 = defaultDelayMs a"
              "currentPlanetId a1 = currentPlanetId b1
                \<or> currentPlanetId a1 = currentPlanetId a \<and> currentPlanetId b1 = currentPlanetId b"
            by blast
          from list_b cb_b r have "setupGame b w = Some (r, b1, w1)"
            by (simp add: setupGame_result split: sum.splits)
          with rest show ?thesis by blast
        qed
      qed
    qed
  qed
qed




text \<open>
  Claim C1 asks for the first planet with an eligible zone of type 4. On the planets A, B, C,
  where A has one eligible zone of type 3 and B and C have an eligible zone of type 4 each,
  the pass selects A and requests neither B nor C: the flag \<^verbatim>\<open>hasBossZone\<close> is initialised
  to \<^verbatim>\<open>true\<close>, so the test after the zone loop holds for A already.
\<close>

theorem setupGame_ignores_boss_zones:
  "setupGame constructor
     \<lparr> script = [JsonBody (JObject (Some (Response (Some [\<lparr> planet_id = ''A'',
       state = Some \<lparr> state_name = Some ''#TerritoryControl_PlanetA'',
       state_capture_progress = Some (1 / 2) \<rparr>, zones = None \<rparr>, \<lparr>
       planet_id = ''B'', state = Some \<lparr> state_name = Some
       ''#TerritoryControl_PlanetB'', state_capture_progress = Some (1 / 2) \<rparr>, zones =
       None \<rparr>, \<lparr> planet_id = ''C'', state = Some \<lparr> state_name = Some
       ''#TerritoryControl_PlanetC'', state_capture_progress = Some (1 / 2) \<rparr>, zones =
       None \<rparr>])))), JsonBody (JObject (Some (Response (Some [\<lparr> planet_id = ''A'', state = None, zones = Some [\<lparr> zone_type = 3, difficulty = 1, capture_progress =
       None, captured = False \<rparr>] \<rparr>])))), JsonBody (JObject (Some (Response (Some
       [\<lparr> planet_id = ''B'', state = None, zones = Some [\<lparr> zone_type = 4,
       difficulty = 3, capture_progress = None, captured = False \<rparr>] \<rparr>])))),
       JsonBody (JObject (Some (Response (Some [\<lparr> planet_id = ''C'', state = None,
       zones = Some [\<lparr> zone_type = 4, difficulty = 3, capture_progress = None, captured
       = False \<rparr>] \<rparr>]))))], trace = [] \<rparr>
   = Some (Inr (),
       \<lparr> maxRetries = 2, defaultDelayMs = 5000, currentPlanetId = Some ''A'',
         knownPlanets = [''A''] \<rparr>,
       \<lparr> script = [JsonBody (JObject (Some (Response (Some [\<lparr> planet_id = ''B'',
         state = None, zones = Some [\<lparr> zone_type = 4, difficulty = 3, capture_progress =
         None, captured = False \<rparr>] \<rparr>])))), JsonBody (JObject (Some (Response
         (Some [\<lparr> planet_id = ''C'', state = None, zones = Some [\<lparr> zone_type =
         4, difficulty = 3, capture_progress = None, captured = False \<rparr>] \<rparr>]))))],
         trace = [Fetch
         ''https://community.steam-api.com/ITerritoryControlMinigameService/GetPlanets/v0001/?active_only=1'',
           Fetch
         ''https://community.steam-api.com/ITerritoryControlMinigameService/GetPlanet/v0001/?id=A&language=english'',
           PlanetLine ''A'' 0 0 1 0] \<rparr>)"
  by (simp add: run_defs)

text \<open>
  Claim C5, as amended. When \<^verbatim>\<open>GetPlanets\<close> returns no \<^verbatim>\<open>planets\<close> member, the pass throws
  \<^verbatim>\<open>SalienScriptException\<close> "Didn't find any planets." in the world as \<^verbatim>\<open>ApiGetPlanets\<close> left
  it, before any planet detail is requested. When it returns the empty array, which is truthy,
  nothing is thrown: the pass ends normally in that same world, the object unchanged and no
  planet chosen.
\<close>

theorem setupGame_no_planets:
  "(ApiGetPlanets this w = Some (Inr None, w1) \<longrightarrow>
      setupGame this w
        = Some (Inl (SalienScriptException (Some ''Didn't find any planets.'')), this, w1))
   \<and> (ApiGetPlanets this w = Some (Inr (Some []), w1) \<longrightarrow>
      setupGame this w = Some (Inr (), this, w1))"
  by (simp add: setupGame_def)

theorem setupGame_no_planets_witness:
  "ApiGetPlanets constructor
      \<lparr> script = [JsonBody (JObject (Some (Response None)))], trace = [] \<rparr>
     = Some (Inr None, \<lparr> script = [], trace = [Fetch
              ''https://community.steam-api.com/ITerritoryControlMinigameService/GetPlanets/v0001/?active_only=1''] \<rparr>)
   \<and> setupGame constructor
      \<lparr> script = [JsonBody (JObject (Some (Response None)))], trace = [] \<rparr>
     = Some (Inl (SalienScriptException (Some ''Didn't find any planets.'')), constructor,
         \<lparr> script = [], trace = [Fetch
              ''https://community.steam-api.com/ITerritoryControlMinigameService/GetPlanets/v0001/?active_only=1''] \<rparr>)
   \<and> ApiGetPlanets constructor
      \<lparr> script = [NetworkError, JsonBody (JObject (Some (Response (Some []))))], trace = [] \<rparr>
     = Some (Inr (Some []),
         \<lparr> script = [], trace = [Fetch
              ''https://community.steam-api.com/ITerritoryControlMinigameService/GetPlanets/v0001/?active_only=1'',
           Delay 5000, Fetch
              ''https://community.steam-api.com/ITerritoryControlMinigameService/GetPlanets/v0001/?active_only=1''] \<rparr>)
   \<and> setupGame constructor
      \<lparr> script = [NetworkError, JsonBody (JObject (Some (Response (Some []))))], trace = [] \<rparr>
     = Some (Inr (), constructor,
         \<lparr> script = [], trace = [Fetch
              ''https://community.steam-api.com/ITerritoryControlMinigameService/GetPlanets/v0001/?active_only=1'',
           Delay 5000, Fetch
              ''https://community.steam-api.com/ITerritoryControlMinigameService/GetPlanets/v0001/?active_only=1''] \<rparr>)"
proof -
  have absent: "ApiGetPlanets constructor
      \<lparr> script = [JsonBody (JObject (Some (Response None)))], trace = [] \<rparr>
     = Some (Inr None, \<lparr> script = [], trace = [Fetch
              ''https://community.steam-api.com/ITerritoryControlMinigameService/GetPlanets/v0001/?active_only=1''] \<rparr>)"
    by (simp add: ApiGetPlanets_def RequestAPI_def RequestAPI_while.simps constructor_def
          build_url_def)
  have empty: "ApiGetPlanets constructor
      \<lparr> script = [NetworkError, JsonBody (JObject (Some (Response (Some []))))], trace = [] \<rparr>
     = Some (Inr (Some []),
         \<lparr> script = [], trace = [Fetch
              ''https://community.steam-api.com/ITerritoryControlMinigameService/GetPlanets/v0001/?active_only=1'',
           Delay 5000, Fetch
              ''https://community.steam-api.com/ITerritoryControlMinigameService/GetPlanets/v0001/?active_only=1''] \<rparr>)"
    by (simp add: ApiGetPlanets_def RequestAPI_def RequestAPI_while.simps constructor_def
          build_url_def)
  from setupGame_no_planets [of constructor
      "\<lparr> script = [JsonBody (JObject (Some (Response None)))], trace = [] \<rparr>"
      "\<lparr> script = [], trace = [Fetch
              ''https://community.steam-api.com/ITerritoryControlMinigameService/GetPlanets/v0001/?active_only=1''] \<rparr>"]
    setupGame_no_planets [of constructor
      "\<lparr> script = [NetworkError, JsonBody (JObject (Some (Response (Some []))))], trace = [] \<rparr>"
      "\<lparr> script = [], trace = [Fetch
              ''https://community.steam-api.com/ITerritoryControlMinigameService/GetPlanets/v0001/?active_only=1'',
           Delay 5000, Fetch
              ''https://community.steam-api.com/ITerritoryControlMinigameService/GetPlanets/v0001/?active_only=1''] \<rparr>"]
    absent empty
  show ?thesis by simp
qed

text \<open>
  The claim fails for the empty list: the pass returns normally after the one request to
  \<^verbatim>\<open>GetPlanets\<close>.
\<close>

theorem setupGame_empty_list_counterexample:
  "setupGame constructor
      \<lparr> script = [JsonBody (JObject (Some (Response (Some []))))], trace = [] \<rparr>
     = Some (Inr (), constructor, \<lparr> script = [], trace = [Fetch
              ''https://community.steam-api.com/ITerritoryControlMinigameService/GetPlanets/v0001/?active_only=1''] \<rparr>)"
  by (simp add: setupGame_def ApiGetPlanets_def RequestAPI_def RequestAPI_while.simps
        constructor_def build_url_def)

lemma callback_known:
  "callback p this w = Some (r, this1, w1) \<Longrightarrow>
     knownPlanets this1 = knownPlanets this @ [planet_id p]"
  by (auto simp: callback_def Let_def split: option.splits sum.splits prod.splits if_splits)

lemma asyncForEach_known:
  "asyncForEach this ps callback w = Some (r, this1, w1) \<Longrightarrow>
     knownPlanets this1 = knownPlanets this @ map planet_id (scanned this ps w)"
proof (induction ps arbitrary: this w)
  case Nil
  then show ?case by simp
next
  case (Cons p ps)
  show ?case
  proof (cases "callback p this w")
    case None
    with Cons.prems show ?thesis by simp
  next
    case (Some x)
    obtain res this2 w2 where x: "x = (res, this2, w2)" by (cases x)
    from Some x have known: "knownPlanets this2 = knownPlanets this @ [planet_id p]"
      by (simp add: callback_known)
    show ?thesis
    proof (cases res)
      case (Inl e)
      with Some x Cons.prems known show ?thesis by auto
    next
      case (Inr u)
      with Some x Cons.prems have "asyncForEach this2 ps callback w2 = Some (r, this1, w1)"
        by simp
      from Cons.IH [OF this] known Some x Inr show ?thesis by simp
    qed
  qed
qed

text \<open>
  Claim C7. Whenever a pass ends, by the selection signal, by an exception or by running out
  of planets, \<^verbatim>\<open>knownPlanets\<close> is its value before the pass followed by the ids of the planets
  the pass scanned, in the order of the list: nothing is removed or reordered, and for a
  freshly constructed object, whose \<^verbatim>\<open>knownPlanets\<close> is empty, it holds exactly the scanned
  ids.
\<close>

theorem knownPlanets_scanned:
  assumes "setupGame this w = Some (r, this1, w1)"
  shows "prefix (knownPlanets this) (knownPlanets this1)
     \<and> (\<forall>planets w0. ApiGetPlanets this w = Some (Inr (Some planets), w0) \<longrightarrow>
           knownPlanets this1 = knownPlanets this @ map planet_id (scanned this planets w0))"
proof (cases "ApiGetPlanets this w")
  case None
  with assms show ?thesis by (simp add: setupGame_def)
next
  case (Some x)
  obtain res w0 where x: "x = (res, w0)" by (cases x)
  show ?thesis
  proof (cases res)
    case (Inl e)
    with Some x assms show ?thesis by (auto simp: setupGame_def)
  next
    case (Inr got)
    show ?thesis
    proof (cases got)
      case None
      with Some x Inr assms show ?thesis by (auto simp: setupGame_def)
    next
      case got: (Some planets)
      from Some x Inr got assms obtain r0 where
        "asyncForEach this planets callback w0 = Some (r0, this1, w1)"
        by (auto simp: setupGame_def split: option.splits sum.splits prod.splits if_splits)
      from asyncForEach_known [OF this] Some x Inr got show ?thesis by simp
    qed
  qed
qed

theorem knownPlanets_scanned_witness:
  "setupGame constructor
      \<lparr> script = [JsonBody (JObject (Some (Response (Some [\<lparr> planet_id = ''1'',
        state = Some \<lparr> state_name = Some ''#TerritoryControl_Planet1'',
        state_capture_progress = Some (1 / 2) \<rparr>, zones = None \<rparr>, \<lparr>
        planet_id = ''2'', state = Some \<lparr> state_name = Some
        ''#TerritoryControl_Planet2'', state_capture_progress = Some (1 / 2) \<rparr>, zones =
        None \<rparr>])))), NetworkError, NonJsonBody], trace = [] \<rparr>
     = Some (Inr (),
         \<lparr> maxRetries = 2, defaultDelayMs = 5000, currentPlanetId = None, knownPlanets =
           [''1''] \<rparr>,
         \<lparr> script = [], trace = [Fetch
           ''https://community.steam-api.com/ITerritoryControlMinigameService/GetPlanets/v0001/?active_only=1'',
           Fetch
           ''https://community.steam-api.com/ITerritoryControlMinigameService/GetPlanet/v0001/?id=1&language=english'',
           Delay 5000, Fetch
           ''https://community.steam-api.com/ITerritoryControlMinigameService/GetPlanet/v0001/?id=1&language=english''] \<rparr>)
   \<and> ApiGetPlanets constructor
      \<lparr> script = [JsonBody (JObject (Some (Response (Some [\<lparr> planet_id = ''1'',
        state = Some \<lparr> state_name = Some ''#TerritoryControl_Planet1'',
        state_capture_progress = Some (1 / 2) \<rparr>, zones = None \<rparr>, \<lparr>
        planet_id = ''2'', state = Some \<lparr> state_name = Some
        ''#TerritoryControl_Planet2'', state_capture_progress = Some (1 / 2) \<rparr>, zones =
        None \<rparr>])))), NetworkError, NonJsonBody], trace = [] \<rparr>
     = Some (Inr (Some
          [\<lparr> planet_id = ''1'', state = Some \<lparr> state_name = Some
            ''#TerritoryControl_Planet1'', state_capture_progress = Some (1 / 2) \<rparr>,
            zones = None \<rparr>, \<lparr> planet_id = ''2'', state = Some \<lparr>
            state_name = Some ''#TerritoryControl_Planet2'', state_capture_progress = Some (1
            / 2) \<rparr>, zones = None \<rparr>]),
         \<lparr> script = [NetworkError, NonJsonBody], trace = [Fetch
           ''https://community.steam-api.com/ITerritoryControlMinigameService/GetPlanets/v0001/?active_only=1''] \<rparr>)
   \<and> scanned constructor
        [\<lparr> planet_id = ''1'', state = Some \<lparr> state_name = Some
          ''#TerritoryControl_Planet1'', state_capture_progress = Some (1 / 2) \<rparr>, zones
          = None \<rparr>, \<lparr> planet_id = ''2'', state = Some \<lparr> state_name = Some
          ''#TerritoryControl_Planet2'', state_capture_progress = Some (1 / 2) \<rparr>, zones
          = None \<rparr>]
        \<lparr> script = [NetworkError, NonJsonBody], trace = [Fetch
          ''https://community.steam-api.com/ITerritoryControlMinigameService/GetPlanets/v0001/?active_only=1''] \<rparr>
     = [
        \<lparr> planet_id = ''1'', state = Some \<lparr> state_name = Some
          ''#TerritoryControl_Planet1'', state_capture_progress = Some (1 / 2) \<rparr>, zones
          = None \<rparr>]
   \<and> prefix (knownPlanets constructor)
        (knownPlanets
          \<lparr> maxRetries = 2, defaultDelayMs = 5000, currentPlanetId = None, knownPlanets
            = [''1''] \<rparr>)
   \<and> knownPlanets
        \<lparr> maxRetries = 2, defaultDelayMs = 5000, currentPlanetId = None, knownPlanets =
          [''1''] \<rparr>
     = knownPlanets constructor @ map planet_id (scanned constructor
        [\<lparr> planet_id = ''1'', state = Some \<lparr> state_name = Some
          ''#TerritoryControl_Planet1'', state_capture_progress = Some (1 / 2) \<rparr>, zones
          = None \<rparr>, \<lparr> planet_id = ''2'', state = Some \<lparr> state_name = Some
          ''#TerritoryControl_Planet2'', state_capture_progress = Some (1 / 2) \<rparr>, zones
          = None \<rparr>]
        \<lparr> script = [NetworkError, NonJsonBody], trace = [Fetch
          ''https://community.steam-api.com/ITerritoryControlMinigameService/GetPlanets/v0001/?active_only=1''] \<rparr>)"
proof -
  let ?w =
    "\<lparr> script = [JsonBody (JObject (Some (Response (Some [\<lparr> planet_id = ''1'',
      state = Some \<lparr> state_name = Some ''#TerritoryControl_Planet1'',
      state_capture_progress = Some (1 / 2) \<rparr>, zones = None \<rparr>, \<lparr> planet_id
      = ''2'', state = Some \<lparr> state_name = Some ''#TerritoryControl_Planet2'',
      state_capture_progress = Some (1 / 2) \<rparr>, zones = None \<rparr>])))), NetworkError,
      NonJsonBody], trace = [] \<rparr>"
  let ?v =
    "\<lparr> script = [NetworkError, NonJsonBody], trace = [Fetch
      ''https://community.steam-api.com/ITerritoryControlMinigameService/GetPlanets/v0001/?active_only=1''] \<rparr>"
  let ?ps =
    "[\<lparr> planet_id = ''1'', state = Some \<lparr> state_name = Some
      ''#TerritoryControl_Planet1'', state_capture_progress = Some (1 / 2) \<rparr>, zones =
      None \<rparr>, \<lparr> planet_id = ''2'', state = Some \<lparr> state_name = Some
      ''#TerritoryControl_Planet2'', state_capture_progress = Some (1 / 2) \<rparr>, zones =
      None \<rparr>]"
  let ?this1 =
    "\<lparr> maxRetries = 2, defaultDelayMs = 5000, currentPlanetId = None, knownPlanets =
      [''1''] \<rparr>"
  have run: "setupGame constructor ?w
     = Some (Inr (), ?this1,
         \<lparr> script = [], trace = [Fetch
           ''https://community.steam-api.com/ITerritoryControlMinigameService/GetPlanets/v0001/?active_only=1'',
           Fetch
           ''https://community.steam-api.com/ITerritoryControlMinigameService/GetPlanet/v0001/?id=1&language=english'',
           Delay 5000, Fetch
           ''https://community.steam-api.com/ITerritoryControlMinigameService/GetPlanet/v0001/?id=1&language=english''] \<rparr>)"
    by (simp add: run_defs decimal.simps)
  have planets: "ApiGetPlanets constructor ?w = Some (Inr (Some ?ps), ?v)"
    by (simp add: ApiGetPlanets_def RequestAPI_def RequestAPI_while.simps constructor_def
          build_url_def)
  have scan: "scanned constructor ?ps ?v = [
      \<lparr> planet_id = ''1'', state = Some \<lparr> state_name = Some
        ''#TerritoryControl_Planet1'', state_capture_progress = Some (1 / 2) \<rparr>, zones =
        None \<rparr>]"
    by (simp add: run_defs decimal.simps)
  from knownPlanets_scanned [OF run]
  have pre: "prefix (knownPlanets constructor) (knownPlanets ?this1)" by blast
  from knownPlanets_scanned [OF run] planets
  have known: "knownPlanets ?this1
     = knownPlanets constructor @ map planet_id (scanned constructor ?ps ?v)"
    by blast
  show ?thesis by (intro conjI run planets scan pre known)
qed

text \<open>
  Claim C8. A pass that ended is run again on the object as it left it, against the same
  world: the second pass ends the same way, in the same final world, and
  \<^verbatim>\<open>currentPlanetId\<close> is the same after both.
\<close>

theorem setupGame_twice:
  assumes "setupGame this w = Some (r, this1, w1)"
  shows "\<exists>this2. setupGame this1 w = Some (r, this2, w1)
           \<and> currentPlanetId this2 = currentPlanetId this1"
proof -
  from setupGame_config [OF refl refl assms]
  have config: "maxRetries this1 = maxRetries this" "defaultDelayMs this1 = defaultDelayMs this"
    by auto
  from setupGame_config [OF config assms] show ?thesis by auto
qed

theorem setupGame_twice_witness:
  "setupGame constructor
      \<lparr> script = [JsonBody (JObject (Some (Response (Some [\<lparr> planet_id = ''3'',
        state = Some \<lparr> state_name = Some ''#TerritoryControl_Planet3'',
        state_capture_progress = Some (1 / 2) \<rparr>, zones = None \<rparr>])))), JsonBody
        (JObject (Some (Response (Some [\<lparr> planet_id = ''3'', state = None, zones = Some
        [] \<rparr>]))))], trace = [] \<rparr>
     = Some (Inr (),
         \<lparr> maxRetries = 2, defaultDelayMs = 5000, currentPlanetId = Some ''3'',
           knownPlanets = [''3''] \<rparr>,
         \<lparr> script = [], trace = [Fetch
           ''https://community.steam-api.com/ITerritoryControlMinigameService/GetPlanets/v0001/?active_only=1'',
           Fetch
           ''https://community.steam-api.com/ITerritoryControlMinigameService/GetPlanet/v0001/?id=3&language=english'',
           PlanetLine ''3'' 0 0 0 0] \<rparr>)
   \<and> (\<exists>this2.
        setupGame
          \<lparr> maxRetries = 2, defaultDelayMs = 5000, currentPlanetId = Some ''3'',
            knownPlanets = [''3''] \<rparr>
          \<lparr> script = [JsonBody (JObject (Some (Response (Some [\<lparr> planet_id =
            ''3'', state = Some \<lparr> state_name = Some ''#TerritoryControl_Planet3'',
            state_capture_progress = Some (1 / 2) \<rparr>, zones = None \<rparr>])))),
            JsonBody (JObject (Some (Response (Some [\<lparr> planet_id = ''3'', state = None,
            zones = Some [] \<rparr>]))))], trace = [] \<rparr>
        = Some (Inr (), this2,
            \<lparr> script = [], trace = [Fetch
              ''https://community.steam-api.com/ITerritoryControlMinigameService/GetPlanets/v0001/?active_only=1'',
           Fetch
              ''https://community.steam-api.com/ITerritoryControlMinigameService/GetPlanet/v0001/?id=3&language=english'',
           PlanetLine ''3'' 0 0 0 0] \<rparr>)
        \<and> currentPlanetId this2 = Some ''3'')"
proof -
  have run: "setupGame constructor
      \<lparr> script = [JsonBody (JObject (Some (Response (Some [\<lparr> planet_id = ''3'',
        state = Some \<lparr> state_name = Some ''#TerritoryControl_Planet3'',
        state_capture_progress = Some (1 / 2) \<rparr>, zones = None \<rparr>])))), JsonBody
        (JObject (Some (Response (Some [\<lparr> planet_id = ''3'', state = None, zones = Some
        [] \<rparr>]))))], trace = [] \<rparr>
     = Some (Inr (),
         \<lparr> maxRetries = 2, defaultDelayMs = 5000, currentPlanetId = Some ''3'',
           knownPlanets = [''3''] \<rparr>,
         \<lparr> script = [], trace = [Fetch
           ''https://community.steam-api.com/ITerritoryControlMinigameService/GetPlanets/v0001/?active_only=1'',
           Fetch
           ''https://community.steam-api.com/ITerritoryControlMinigameService/GetPlanet/v0001/?id=3&language=english'',
           PlanetLine ''3'' 0 0 0 0] \<rparr>)"
    by (simp add: run_defs)
  from setupGame_twice [OF run] run show ?thesis by simp
qed

end
